theory Spec2Isabelle
  imports Main "HOL-Library.Word"
begin

section \<open>Strings\<close>

text \<open>
  The component is TypeScript: a string is a sequence of UTF-16 code units. The string
  literals of the source are ASCII; \<open>lit\<close> embeds them.
\<close>

type_synonym jsstring = "16 word list"

definition lit :: "string \<Rightarrow> jsstring" where
  "lit s = map (\<lambda>c. of_nat (of_char c)) s"

text \<open>
  \<open>String.prototype.trim\<close>: the code units removed at both ends are ECMAScript's
  WhiteSpace (TAB, VT, FF, ZWNBSP and the Unicode space separators) and LineTerminator
  (LF, CR, LS, PS); all of them are single code units.
\<close>

definition isWhiteSpace :: "16 word \<Rightarrow> bool" where
  "isWhiteSpace c =
     (c \<in> set [0x0009, 0x000A, 0x000B, 0x000C, 0x000D, 0x0020, 0x00A0, 0x1680,
                0x2000, 0x2001, 0x2002, 0x2003, 0x2004, 0x2005, 0x2006, 0x2007,
                0x2008, 0x2009, 0x200A, 0x2028, 0x2029, 0x202F, 0x205F, 0x3000,
                0xFEFF])"

definition trim :: "jsstring \<Rightarrow> jsstring" where
  "trim s = rev (dropWhile isWhiteSpace (rev (dropWhile isWhiteSpace s)))"

section \<open>Plan gates\<close>

text \<open>
  \<open>user?.plan\<close> is \<open>None\<close> when there is no user or the user has no plan
  (\<open>undefined\<close>), and \<open>Some p\<close> for the plan string \<open>p\<close>.
\<close>

type_synonym plan = "jsstring option"

text \<open>
  \<open>const planLevels = { starter: 0, standard: 1, premium: 2 }\<close>. A lookup
  \<open>planLevels[k]\<close> is a number for the three own keys. For every other key it is
  \<open>undefined\<close> or a member inherited from \<open>Object.prototype\<close>; compared with a
  number by \<open>>=\<close>, both convert to NaN. \<open>None\<close> stands for these non-numbers, so
  \<open>js_ge\<close> is the source's \<open>>=\<close> whenever one of its operands is a number, which
  is the case in every call of the component (the required plan there is \<open>"premium"\<close>).
\<close>

definition planLevels :: "jsstring \<Rightarrow> nat option" where
  "planLevels = map_of [(lit ''starter'', 0), (lit ''standard'', 1), (lit ''premium'', 2)]"

definition planLevels_at :: "plan \<Rightarrow> nat option" where
  "planLevels_at p = (case p of None \<Rightarrow> None | Some k \<Rightarrow> planLevels k)"

definition js_ge :: "nat option \<Rightarrow> nat option \<Rightarrow> bool" where
  "js_ge a b = (case a of None \<Rightarrow> False
                | Some x \<Rightarrow> (case b of None \<Rightarrow> False | Some y \<Rightarrow> x \<ge> y))"

definition isFeatureAvailable :: "plan \<Rightarrow> jsstring \<Rightarrow> bool" where
  "isFeatureAvailable userPlan requiredPlan =
     js_ge (planLevels_at userPlan) (planLevels requiredPlan)"

definition hasReachedLimit :: "plan \<Rightarrow> nat \<Rightarrow> bool" where
  "hasReachedLimit userPlan selectedCount =
     (if userPlan = Some (lit ''starter'') then selectedCount \<ge> 1
      else if userPlan = Some (lit ''standard'') then selectedCount \<ge> 3
      else False)"

subsection \<open>The plan tiers as the specification names them\<close>

datatype PlanTier = Starter | Standard | Premium

fun tier_name :: "PlanTier \<Rightarrow> jsstring" where
  "tier_name Starter = lit ''starter''"
| "tier_name Standard = lit ''standard''"
| "tier_name Premium = lit ''premium''"

fun ordinal :: "PlanTier \<Rightarrow> nat" where
  "ordinal Starter = 0"
| "ordinal Standard = 1"
| "ordinal Premium = 2"

text \<open>The capacity table of the specification; \<open>None\<close> is "unbounded".\<close>

fun capacity :: "PlanTier \<Rightarrow> nat option" where
  "capacity Starter = Some 1"
| "capacity Standard = Some 3"
| "capacity Premium = None"

definition recognised :: "plan \<Rightarrow> bool" where
  "recognised p = (p \<in> set [Some (lit ''starter''), Some (lit ''standard''), Some (lit ''premium'')])"

section \<open>The state the component works on\<close>

text \<open>
  Modelled from the spec: the type of a prop firm is declared in
  \<open>components/prop-firm-context\<close>, which is not among the sources. The fields
  \<open>id\<close>, \<open>name\<close>, \<open>description\<close>, \<open>isSelected\<close> and \<open>isCustom\<close> are those the component
  reads; \<open>matchKeyword\<close> is from the specification's TrackedEntity.
\<close>

record PropFirm =
  firm_id :: jsstring
  firm_name :: jsstring
  firm_description :: jsstring
  isSelected :: bool
  isCustom :: bool
  matchKeyword :: jsstring

text \<open>
  Modelled from the spec: the state behind \<open>usePropFirms()\<close> is the committed and the
  pending sequence of prop firms.
\<close>

record PropFirms =
  committedPropFirms :: "PropFirm list"
  pendingPropFirms :: "PropFirm list"

text \<open>
  A call either returns or throws; in both cases the state it leaves is kept, since
  what a JavaScript function has mutated before it throws stays mutated.
\<close>

datatype 'a completion = Normal 'a | Throw 'a

fun state_of :: "'a completion \<Rightarrow> 'a" where
  "state_of (Normal s) = s"
| "state_of (Throw s) = s"

datatype toast_variant = default_variant | destructive

record Toast =
  title :: jsstring
  description :: jsstring
  variant :: toast_variant

text \<open>
  The component's state: what the two hooks provide (\<open>propFirms\<close>, \<open>user_plan\<close>), the
  four \<open>useState\<close> cells, the toasts shown so far (oldest first) and the delays of the
  pending \<open>setTimeout\<close> callbacks (each of them is \<open>setIsSaving(false)\<close>).
\<close>

record Settings =
  propFirms :: PropFirms
  user_plan :: plan
  newFirmName :: jsstring
  newFirmKeyword :: jsstring
  selectedCount :: nat
  isSaving :: bool
  toasts :: "Toast list"
  timers :: "nat list"

definition toast :: "Toast \<Rightarrow> Settings \<Rightarrow> Settings" where
  "toast t s = s\<lparr>toasts := toasts s @ [t]\<rparr>"

text \<open>A call of a function of the context: the component sees the state it leaves.\<close>

definition call :: "(PropFirms \<Rightarrow> PropFirms completion) \<Rightarrow> Settings \<Rightarrow> Settings completion" where
  "call f s = (case f (propFirms s) of
                 Normal c \<Rightarrow> Normal (s\<lparr>propFirms := c\<rparr>)
               | Throw c \<Rightarrow> Throw (s\<lparr>propFirms := c\<rparr>))"

section \<open>The component\<close>

text \<open>
  \<open>useEffect(() => setSelectedCount(pendingPropFirms.filter((firm) => firm.isSelected).length),
  [pendingPropFirms])\<close>
\<close>

definition countSelected :: "PropFirm list \<Rightarrow> nat" where
  "countSelected firms = length (filter isSelected firms)"

definition effect_selectedCount :: "Settings \<Rightarrow> Settings" where
  "effect_selectedCount s = s\<lparr>selectedCount := countSelected (pendingPropFirms (propFirms s))\<rparr>"

definition toast_plan_limit :: "plan \<Rightarrow> Toast" where
  "toast_plan_limit p =
     \<lparr>title = lit ''Plan limit reached'',
      description =
        (if p = Some (lit ''starter'')
         then lit ''Starter plan allows only 1 prop firm. Upgrade to Standard for up to 3 firms.''
         else lit ''Standard plan allows up to 3 prop firms. Upgrade to Premium for unlimited firms.''),
      variant = destructive\<rparr>"

text \<open>
  The functions of the context (\<open>togglePropFirm\<close>, \<open>savePreferences\<close>,
  \<open>addCustomPropFirm\<close>) are parameters of the handlers, as they are values the
  component receives from \<open>usePropFirms()\<close>.
\<close>

definition handleToggle ::
  "(jsstring \<Rightarrow> PropFirms \<Rightarrow> PropFirms completion) \<Rightarrow> jsstring \<Rightarrow> bool \<Rightarrow> Settings \<Rightarrow> Settings completion" where
  "handleToggle togglePropFirm i isCurrentlySelected s =
     (if \<not> isCurrentlySelected \<and> hasReachedLimit (user_plan s) (selectedCount s)
      then Normal (toast (toast_plan_limit (user_plan s)) s)
      else call (togglePropFirm i) s)"





definition toast_missing_information :: Toast where
  "toast_missing_information =
     \<lparr>title = lit ''Missing information'',
      description = lit ''Please provide both a firm name and a keyword to match in transactions.'',
      variant = destructive\<rparr>"

definition toast_pro_feature :: Toast where
  "toast_pro_feature =
     \<lparr>title = lit ''Pro feature'',
      description = lit ''Adding custom prop firms requires a Pro plan.'',
      variant = destructive\<rparr>"

definition toast_firm_added :: "jsstring \<Rightarrow> Toast" where
  \<open>toast_firm_added firmName =
     \<lparr>title = lit ''Custom firm added'',
      description = lit ''"'' @ firmName @ lit ''" has been added to your prop firms.'',
      variant = default_variant\<rparr>\<close>

definition toast_error_adding :: Toast where
  "toast_error_adding =
     \<lparr>title = lit ''Error adding firm'',
      description = lit ''There was a problem adding your custom firm. Please try again.'',
      variant = destructive\<rparr>"

text \<open>\<open>!x.trim()\<close>: the empty string is the only falsy string.\<close>

definition blank :: "jsstring \<Rightarrow> bool" where
  "blank x = (trim x = [])"

definition handleAddCustomFirm ::
  "(jsstring \<Rightarrow> jsstring \<Rightarrow> PropFirms \<Rightarrow> PropFirms completion) \<Rightarrow> Settings \<Rightarrow> Settings completion" where
  "handleAddCustomFirm addCustomPropFirm s =
     (if blank (newFirmName s) \<or> blank (newFirmKeyword s)
      then Normal (toast toast_missing_information s)
      else if \<not> isFeatureAvailable (user_plan s) (lit ''premium'')
      then Normal (toast toast_pro_feature s)
      else (case call (addCustomPropFirm (newFirmName s) (newFirmKeyword s)) s of
              Normal s' \<Rightarrow>
                Normal ((toast (toast_firm_added (newFirmName s)) s')
                          \<lparr>newFirmName := [], newFirmKeyword := []\<rparr>)
            | Throw s' \<Rightarrow> Normal (toast toast_error_adding s')))"

text \<open>
  The checkbox of the \<open>i\<close>-th rendered firm:
  \<open>onCheckedChange={() => handleToggle(firm.id, firm.isSelected)}\<close>, for \<open>firm\<close> in
  \<open>pendingPropFirms\<close>. There is no checkbox beyond the end of the list. The
  \<open>disabled\<close> attribute of the checkbox repeats the handler's guard; the model runs the
  handler in every case.
\<close>

definition onCheckedChange ::
  "(jsstring \<Rightarrow> PropFirms \<Rightarrow> PropFirms completion) \<Rightarrow> nat \<Rightarrow> Settings \<Rightarrow> Settings completion" where
  "onCheckedChange togglePropFirm i s =
     (let firms = pendingPropFirms (propFirms s)
      in if i < length firms
         then handleToggle togglePropFirm (firm_id (firms ! i)) (isSelected (firms ! i)) s
         else Normal s)"

section \<open>The context, from the specification\<close>

definition flip :: "PropFirm \<Rightarrow> PropFirm" where
  "flip f = f\<lparr>isSelected := \<not> isSelected f\<rparr>"

text \<open>
  Modelled from the spec: \<open>togglePropFirm\<close> of \<open>components/prop-firm-context\<close> (not
  among the sources): "flip isSelected for that entity in pending only; committed is
  untouched".
\<close>

definition togglePropFirm :: "jsstring \<Rightarrow> PropFirms \<Rightarrow> PropFirms completion" where
  "togglePropFirm i c =
     Normal (c\<lparr>pendingPropFirms := map (\<lambda>f. if firm_id f = i then flip f else f) (pendingPropFirms c)\<rparr>)"

text \<open>
  Modelled from the spec: \<open>addCustomPropFirm\<close> of the context: "append a new
  TrackedEntity to pending with a freshly generated unique id, isCustom = true",
  \<open>isSelected\<close> false. The generated id is the parameter \<open>newId\<close>.
\<close>

definition addCustomPropFirm :: "jsstring \<Rightarrow> jsstring \<Rightarrow> jsstring \<Rightarrow> PropFirms \<Rightarrow> PropFirms completion" where
  "addCustomPropFirm newId firmName keyword c =
     Normal (c\<lparr>pendingPropFirms := pendingPropFirms c @
        [\<lparr>firm_id = newId, firm_name = firmName, firm_description = [],
          isSelected = False, isCustom = True, matchKeyword = keyword\<rparr>]\<rparr>)"

text \<open>
  Modelled from the spec: \<open>savePreferences\<close> of the context: "atomically replace
  committed with a copy of pending"; when the persistence collaborator (the parameter
  \<open>persist\<close>) rejects the write, "pending and committed remain unchanged".
\<close>

definition savePreferences :: "(PropFirm list \<Rightarrow> bool) \<Rightarrow> PropFirms \<Rightarrow> PropFirms completion" where
  "savePreferences persist c =
     (if persist (pendingPropFirms c) then Normal (c\<lparr>committedPropFirms := pendingPropFirms c\<rparr>)
      else Throw c)"

text \<open>
  Modelled from the spec: \<open>discardChanges\<close> of the context: "unconditionally replace
  pending with a fresh copy of committed".
\<close>

definition discardChanges :: "PropFirms \<Rightarrow> PropFirms" where
  "discardChanges c = c\<lparr>pendingPropFirms := committedPropFirms c\<rparr>"

text \<open>
  Modelled from the spec: \<open>hasPendingChanges\<close> of the context: "recomputed on every
  state change; no stored flag", true when pending is not equal to committed.
\<close>

definition hasPendingChanges :: "PropFirms \<Rightarrow> bool" where
  "hasPendingChanges c = (pendingPropFirms c \<noteq> committedPropFirms c)"

text \<open>
  Structural equality as the specification spells it out: the same ids in the same
  places (the same membership) and the same \<open>isSelected\<close> flags.
\<close>

definition sameSelections :: "PropFirms \<Rightarrow> bool" where
  "sameSelections c =
     (map firm_id (pendingPropFirms c) = map firm_id (committedPropFirms c) \<and>
      map isSelected (pendingPropFirms c) = map isSelected (committedPropFirms c))"

text \<open>
  The operations of the lifecycle and the states they reach from a loaded catalogue
  (pending and committed identical after load). \<open>Save ok\<close> is a save whose write the
  persistence collaborator accepts (\<open>ok\<close>) or rejects.
\<close>

datatype operation =
  Toggle jsstring | AddCustom jsstring jsstring jsstring | Save bool | Discard

fun apply_operation :: "operation \<Rightarrow> PropFirms \<Rightarrow> PropFirms" where
  "apply_operation (Toggle i) c = state_of (togglePropFirm i c)"
| "apply_operation (AddCustom newId firmName keyword) c = state_of (addCustomPropFirm newId firmName keyword c)"
| "apply_operation (Save ok) c = state_of (savePreferences (\<lambda>_. ok) c)"
| "apply_operation Discard c = discardChanges c"

definition loaded :: "PropFirm list \<Rightarrow> PropFirms" where
  "loaded catalogue = \<lparr>committedPropFirms = catalogue, pendingPropFirms = catalogue\<rparr>"

definition lifecycle :: "operation list \<Rightarrow> PropFirm list \<Rightarrow> PropFirms" where
  "lifecycle ops catalogue = fold apply_operation ops (loaded catalogue)"

section \<open>Sessions of the component\<close>

text \<open>
  What happens to the component between mounting and unmounting. \<open>Click i\<close> is the
  change event of the checkbox at position \<open>i\<close>, handled by the handler of the latest
  render. \<open>Effect\<close> is the effect of that render running: it is the only code that
  writes \<open>selectedCount\<close>, and React runs it after the render in which
  \<open>pendingPropFirms\<close> changed has been committed, so a handler attached by that render
  still reads the count of before. The model has this state: a click does not run the
  effect.
\<close>

datatype event = Click nat | Effect

definition click ::
  "(jsstring \<Rightarrow> PropFirms \<Rightarrow> PropFirms completion) \<Rightarrow> nat \<Rightarrow> Settings \<Rightarrow> Settings" where
  "click tog i s = state_of (onCheckedChange tog i s)"

fun run ::
  "(jsstring \<Rightarrow> PropFirms \<Rightarrow> PropFirms completion) \<Rightarrow> event list \<Rightarrow> Settings \<Rightarrow> Settings" where
  "run tog [] s = s"
| "run tog (Click i # es) s = run tog es (click tog i s)"
| "run tog (Effect # es) s = run tog es (effect_selectedCount s)"

text \<open>The component when it is mounted and its first effect has run.\<close>

definition mounted :: "PropFirms \<Rightarrow> plan \<Rightarrow> Settings" where
  "mounted c p =
     effect_selectedCount
       \<lparr>propFirms = c, user_plan = p, newFirmName = [], newFirmKeyword = [],
        selectedCount = 0, isSaving = False, toasts = [], timers = []\<rparr>"

text \<open>A firm of the catalogue, for the examples.\<close>

definition catalogue_firm :: "string \<Rightarrow> bool \<Rightarrow> PropFirm" where
  "catalogue_firm n sel =
     \<lparr>firm_id = lit n, firm_name = lit n, firm_description = [],
      isSelected = sel, isCustom = False, matchKeyword = []\<rparr>"

definition two_firms :: "PropFirm list" where
  "two_firms = [catalogue_firm ''A'' False, catalogue_firm ''B'' False]"

definition starter_session :: Settings where
  "starter_session = mounted (loaded two_firms) (Some (lit ''starter''))"


section \<open>The invariant of the lifecycle\<close>

text \<open>
  The invariant of the lifecycle: committed is as long as pending or shorter, and each
  committed firm is the pending firm at its position up to the \<open>isSelected\<close> flag.
\<close>

definition same_firm :: "PropFirm \<Rightarrow> PropFirm \<Rightarrow> bool" where
  "same_firm f g = (f\<lparr>isSelected := isSelected g\<rparr> = g)"

definition lifecycle_inv :: "PropFirms \<Rightarrow> bool" where
  "lifecycle_inv c =
     list_all2 same_firm (take (length (committedPropFirms c)) (pendingPropFirms c))
       (committedPropFirms c)"

section \<open>Facts about strings and plans\<close>

lemma of_char_lt_65536: "(of_char x :: nat) < 65536"
proof -
  have "(of_char x :: nat) mod 256 < 256" by simp
  then have "(of_char x :: nat) < 256" by (simp only: of_char_mod_256)
  then show ?thesis by arith
qed

lemma code_unit_inject:
  assumes "(of_nat (of_char x) :: 16 word) = of_nat (of_char y)"
  shows "x = y"
proof -
  from assms have "take_bit 16 (of_char x :: nat) = take_bit 16 (of_char y :: nat)"
    by (simp add: word_of_nat_eq_iff)
  then have "(of_char x :: nat) = of_char y"
    using of_char_lt_65536 [of x] of_char_lt_65536 [of y] by (simp add: take_bit_nat_eq_self)
  then show ?thesis by simp
qed

lemma lit_inject [simp]: "lit a = lit b \<longleftrightarrow> a = b"
proof -
  have "inj (\<lambda>c::char. (of_nat (of_char c) :: 16 word))"
    by (rule injI) (rule code_unit_inject)
  then show ?thesis by (simp add: lit_def inj_map_eq_map)
qed

lemma planLevels_tier [simp]: "planLevels (tier_name t) = Some (ordinal t)"
  by (cases t) (simp_all add: planLevels_def)

lemma planLevels_at_unrecognised: "\<not> recognised p \<Longrightarrow> planLevels_at p = None"
  by (cases p) (auto simp: recognised_def planLevels_at_def planLevels_def)

section \<open>Facts about toggling\<close>

lemma firm_id_flip [simp]: "firm_id (flip f) = firm_id f"
  by (simp add: flip_def)

lemma firm_id_toggled [simp]:
  "firm_id \<circ> (\<lambda>f. if firm_id f = i then flip f else f) = firm_id"
  by (rule ext) simp

text \<open>With unique ids, flipping by id changes the one position that holds the id.\<close>

lemma toggle_map_distinct:
  assumes d: "distinct (map firm_id fs)" and i: "i < length fs"
  shows "map (\<lambda>f. if firm_id f = firm_id (fs ! i) then flip f else f) fs = fs[i := flip (fs ! i)]"
proof (rule nth_equalityI)
  show "length (map (\<lambda>f. if firm_id f = firm_id (fs ! i) then flip f else f) fs)
          = length (fs[i := flip (fs ! i)])" by simp
next
  fix j
  assume "j < length (map (\<lambda>f. if firm_id f = firm_id (fs ! i) then flip f else f) fs)"
  then have j: "j < length fs" by simp
  have "firm_id (fs ! j) = firm_id (fs ! i) \<longleftrightarrow> j = i"
    using d i j nth_eq_iff_index_eq [of "map firm_id fs" j i] by simp
  then show "map (\<lambda>f. if firm_id f = firm_id (fs ! i) then flip f else f) fs ! j
          = fs[i := flip (fs ! i)] ! j"
    using i j by (simp add: nth_list_update)
qed

lemma handleToggle_spec:
  assumes d: "distinct (map firm_id (pendingPropFirms (propFirms s)))"
    and i: "i < length (pendingPropFirms (propFirms s))"
  shows "handleToggle togglePropFirm (firm_id (pendingPropFirms (propFirms s) ! i))
           (isSelected (pendingPropFirms (propFirms s) ! i)) s =
         (if \<not> isSelected (pendingPropFirms (propFirms s) ! i) \<and>
             hasReachedLimit (user_plan s) (selectedCount s)
          then Normal (s\<lparr>toasts := toasts s @ [toast_plan_limit (user_plan s)]\<rparr>)
          else Normal (s\<lparr>propFirms := (propFirms s)\<lparr>pendingPropFirms :=
                  (pendingPropFirms (propFirms s))[i := flip (pendingPropFirms (propFirms s) ! i)]\<rparr>\<rparr>))"
  using toggle_map_distinct [OF d i]
  by (simp add: handleToggle_def call_def togglePropFirm_def toast_def)

section \<open>Facts about the lifecycle\<close>

lemma same_firm_refl [simp]: "same_firm f f"
  by (simp add: same_firm_def)

lemma same_firm_flip [simp]: "same_firm (flip f) g = same_firm f g"
  by (simp add: same_firm_def flip_def)

lemma same_firm_eq: "same_firm f g \<Longrightarrow> isSelected f = isSelected g \<Longrightarrow> f = g"
  by (cases f, cases g) (simp add: same_firm_def)

lemma inv_loaded: "lifecycle_inv (loaded catalogue)"
  by (simp add: lifecycle_inv_def loaded_def list_all2_refl)

lemma inv_apply: "lifecycle_inv c \<Longrightarrow> lifecycle_inv (apply_operation op c)"
proof (cases op)
  case (Toggle i)
  assume "lifecycle_inv c"
  then have "list_all2 (\<lambda>f g. same_firm (if firm_id f = i then flip f else f) g)
               (take (length (committedPropFirms c)) (pendingPropFirms c)) (committedPropFirms c)"
    unfolding lifecycle_inv_def by (rule list_all2_mono) simp
  with Toggle show ?thesis
    by (simp add: lifecycle_inv_def togglePropFirm_def take_map list_all2_map1)
next
  case (AddCustom newId firmName keyword)
  assume h: "lifecycle_inv c"
  then have "length (committedPropFirms c) \<le> length (pendingPropFirms c)"
    unfolding lifecycle_inv_def by (auto dest: list_all2_lengthD)
  with h AddCustom show ?thesis
    by (simp add: lifecycle_inv_def addCustomPropFirm_def)
next
  case (Save ok)
  assume "lifecycle_inv c"
  with Save show ?thesis
    by (simp add: lifecycle_inv_def savePreferences_def list_all2_refl)
next
  case Discard
  then show ?thesis
    by (simp add: lifecycle_inv_def discardChanges_def list_all2_refl)
qed

lemma inv_fold: "lifecycle_inv c \<Longrightarrow> lifecycle_inv (fold apply_operation ops c)"
  by (induction ops arbitrary: c) (simp_all add: inv_apply)

lemma inv_dirty:
  assumes "lifecycle_inv c"
  shows "hasPendingChanges c = (\<not> sameSelections c)"
proof -
  have "pendingPropFirms c = committedPropFirms c" if s: "sameSelections c"
  proof -
    from s have len: "length (pendingPropFirms c) = length (committedPropFirms c)"
      unfolding sameSelections_def by (metis length_map)
    with assms have a: "list_all2 same_firm (pendingPropFirms c) (committedPropFirms c)"
      by (simp add: lifecycle_inv_def)
    show ?thesis
    proof (rule nth_equalityI [OF len])
      fix k assume k: "k < length (pendingPropFirms c)"
      from a k have "same_firm (pendingPropFirms c ! k) (committedPropFirms c ! k)"
        by (simp add: list_all2_nthD)
      moreover from s k len
      have "isSelected (pendingPropFirms c ! k) = isSelected (committedPropFirms c ! k)"
        unfolding sameSelections_def by (metis nth_map)
      ultimately show "pendingPropFirms c ! k = committedPropFirms c ! k"
        by (rule same_firm_eq)
    qed
  qed
  moreover have "sameSelections c" if "pendingPropFirms c = committedPropFirms c"
    using that by (simp add: sameSelections_def)
  ultimately show ?thesis by (auto simp: hasPendingChanges_def)
qed

section \<open>The example session\<close>

lemmas eval_defs = starter_session_def two_firms_def catalogue_firm_def mounted_def loaded_def
  effect_selectedCount_def countSelected_def click_def onCheckedChange_def handleToggle_def
  hasReachedLimit_def call_def togglePropFirm_def toast_def flip_def

lemma starter_session_facts:
  "distinct (map firm_id (pendingPropFirms (propFirms starter_session)))"
  "user_plan starter_session = Some (tier_name Starter)"
  "selectedCount starter_session = countSelected (pendingPropFirms (propFirms starter_session))"
  "toasts starter_session = []"
  by (simp_all add: eval_defs)

section \<open>What the plan gates compute\<close>

text \<open>
  Claim C5. The selection capacity is 1 for starter, 3 for standard and unbounded for
  premium: \<open>hasReachedLimit\<close> is true for starter exactly when the selected count is at
  least 1, for standard exactly when it is at least 3, and is false for premium whatever
  the count.
\<close>

theorem hasReachedLimit_by_tier:
  "hasReachedLimit (Some (lit ''starter'')) n = (n \<ge> 1) \<and>
   hasReachedLimit (Some (lit ''standard'')) n = (n \<ge> 3) \<and>
   hasReachedLimit (Some (lit ''premium'')) n = False"
  by (simp add: hasReachedLimit_def)

text \<open>
  Claim C6. For every pair of tiers among starter, standard and premium,
  \<open>isFeatureAvailable(requiredTier)\<close> is true if and only if the ordinal of the current
  tier is at least the ordinal of the required tier (starter 0, standard 1, premium 2).
\<close>

theorem isFeatureAvailable_ordinal:
  "isFeatureAvailable (Some (tier_name currentTier)) (tier_name requiredTier)
     = (ordinal currentTier \<ge> ordinal requiredTier)"
  by (simp add: isFeatureAvailable_def planLevels_at_def js_ge_def)

text \<open>
  Claim C10. When the user's plan is missing or is not one of starter, standard and
  premium, \<open>hasReachedLimit\<close> is false for every selected count (selection is unbounded,
  as for premium) and \<open>isFeatureAvailable\<close> is false for every required tier (custom
  firms are blocked, as for starter).
\<close>

theorem unrecognised_plan_gates:
  assumes "\<not> recognised p"
  shows "hasReachedLimit p n = False \<and> isFeatureAvailable p (tier_name requiredTier) = False"
  using assms planLevels_at_unrecognised [OF assms]
  by (auto simp: hasReachedLimit_def recognised_def isFeatureAvailable_def js_ge_def)

theorem unrecognised_plan_gates_witness:
  "\<not> recognised None \<and> hasReachedLimit None 7 = False \<and>
   isFeatureAvailable None (tier_name Premium) = False"
  using unrecognised_plan_gates [of None 7 Premium] by (simp add: recognised_def)

section \<open>Adding a custom firm\<close>

text \<open>
  Claim C7. When the name or the keyword is empty after trimming, the handler shows the
  "Missing information" warning and changes nothing else: whatever function the context
  provides as \<open>addCustomPropFirm\<close>, it is not called, and the pending firms are as
  before.
\<close>

theorem blank_input_rejected:
  assumes "blank (newFirmName s) \<or> blank (newFirmKeyword s)"
  shows "handleAddCustomFirm add s = Normal (s\<lparr>toasts := toasts s @ [toast_missing_information]\<rparr>) \<and>
         propFirms (state_of (handleAddCustomFirm add s)) = propFirms s \<and>
         variant toast_missing_information = destructive"
  using assms by (simp add: handleAddCustomFirm_def toast_def toast_missing_information_def)

theorem blank_input_rejected_witness:
  "blank (newFirmName ((mounted (loaded []) (Some (lit ''premium'')))\<lparr>newFirmName := lit ''  '', newFirmKeyword := lit ''ACME''\<rparr>)) \<and>
   toasts (state_of (handleAddCustomFirm (\<lambda>firmName keyword. Throw)
      ((mounted (loaded []) (Some (lit ''premium'')))\<lparr>newFirmName := lit ''  '', newFirmKeyword := lit ''ACME''\<rparr>)))
     = [toast_missing_information] \<and>
   pendingPropFirms (propFirms (state_of (handleAddCustomFirm (\<lambda>firmName keyword. Throw)
      ((mounted (loaded []) (Some (lit ''premium'')))\<lparr>newFirmName := lit ''  '', newFirmKeyword := lit ''ACME''\<rparr>))))
     = []"
proof -
  let ?s = "(mounted (loaded []) (Some (lit ''premium'')))\<lparr>newFirmName := lit ''  '', newFirmKeyword := lit ''ACME''\<rparr>"
  have b: "blank (newFirmName ?s)"
    by (simp add: blank_def trim_def lit_def isWhiteSpace_def)
  then have "blank (newFirmName ?s) \<or> blank (newFirmKeyword ?s)" ..
  from blank_input_rejected [OF this, of "\<lambda>firmName keyword. Throw"] b
  show ?thesis by (simp add: mounted_def loaded_def effect_selectedCount_def)
qed

text \<open>
  Claim C2, as stated: with the tier standard the handler reports the "Pro feature"
  (plan restricted) outcome for every name and keyword, also blank ones. It does not:
  with both fields empty the one toast shown is "Missing information".
\<close>

theorem standard_blank_counterexample:
  "toasts (state_of (handleAddCustomFirm (\<lambda>firmName keyword. Throw)
      (mounted (loaded []) (Some (lit ''standard'')))))
     = [toast_missing_information] \<and>
   toasts (state_of (handleAddCustomFirm (\<lambda>firmName keyword. Throw)
      (mounted (loaded []) (Some (lit ''standard'')))))
     \<noteq> [toast_pro_feature]"
  by (simp add: handleAddCustomFirm_def mounted_def effect_selectedCount_def blank_def trim_def
        toast_def toast_missing_information_def toast_pro_feature_def)

text \<open>
  Claim C2, amended. With the tier standard the handler never calls
  \<open>addCustomPropFirm\<close> and leaves the pending firms unchanged; it shows "Pro feature"
  when both the name and the keyword are non-empty after trimming, and "Missing
  information" when one of them is empty after trimming.
\<close>

theorem standard_add_custom:
  assumes "user_plan s = Some (lit ''standard'')"
  shows "handleAddCustomFirm add s =
           Normal (s\<lparr>toasts := toasts s @
              [if blank (newFirmName s) \<or> blank (newFirmKeyword s)
               then toast_missing_information else toast_pro_feature]\<rparr>) \<and>
         propFirms (state_of (handleAddCustomFirm add s)) = propFirms s"
  using assms
  by (simp add: handleAddCustomFirm_def toast_def isFeatureAvailable_def planLevels_at_def
        planLevels_def js_ge_def)

theorem standard_add_custom_witness:
  "user_plan ((mounted (loaded []) (Some (lit ''standard'')))\<lparr>newFirmName := lit ''X'', newFirmKeyword := lit ''Y''\<rparr>)
     = Some (lit ''standard'') \<and>
   handleAddCustomFirm (\<lambda>firmName keyword. Throw)
      ((mounted (loaded []) (Some (lit ''standard'')))\<lparr>newFirmName := lit ''X'', newFirmKeyword := lit ''Y''\<rparr>)
     = Normal ((mounted (loaded []) (Some (lit ''standard'')))
          \<lparr>newFirmName := lit ''X'', newFirmKeyword := lit ''Y'', toasts := [toast_pro_feature]\<rparr>)"
proof -
  let ?s = "(mounted (loaded []) (Some (lit ''standard'')))\<lparr>newFirmName := lit ''X'', newFirmKeyword := lit ''Y''\<rparr>"
  have p: "user_plan ?s = Some (lit ''standard'')"
    by (simp add: mounted_def effect_selectedCount_def)
  have nb: "\<not> blank (lit ''X'')" "\<not> blank (lit ''Y'')"
    by (simp_all add: blank_def trim_def lit_def isWhiteSpace_def)
  from standard_add_custom [OF p, of "\<lambda>firmName keyword. Throw"] nb
  show ?thesis by (simp add: mounted_def effect_selectedCount_def)
qed

section \<open>Toggling\<close>

text \<open>
  Claim C1. The claim: a toggle of an unselected firm is rejected (warning, no call of
  \<open>togglePropFirm\<close>, no change) whenever the selected count of pending has reached the
  capacity of the tier, so that toggles never take the count above the capacity. The
  handler does not do this when the second toggle is handled before the effect has run:
  on the starter plan (capacity 1), with two unselected firms, the clicks on the first
  and on the second checkbox select both firms and show no toast. When the effect runs
  between the two clicks, the second is rejected with the plan-limit toast.
\<close>

theorem stale_count_admits_second_selection:
  "capacity Starter = Some 1 \<and>
   user_plan starter_session = Some (tier_name Starter) \<and>
   run togglePropFirm [Click 0, Click 1] starter_session =
     starter_session\<lparr>propFirms := \<lparr>committedPropFirms = two_firms,
        pendingPropFirms = [catalogue_firm ''A'' True, catalogue_firm ''B'' True]\<rparr>\<rparr> \<and>
   countSelected (pendingPropFirms (propFirms (run togglePropFirm [Click 0, Click 1] starter_session))) = 2 \<and>
   toasts (run togglePropFirm [Click 0, Click 1] starter_session) = [] \<and>
   run togglePropFirm [Click 0, Effect, Click 1] starter_session =
     starter_session\<lparr>propFirms := \<lparr>committedPropFirms = two_firms,
        pendingPropFirms = [catalogue_firm ''A'' True, catalogue_firm ''B'' False]\<rparr>,
        selectedCount := 1,
        toasts := [toast_plan_limit (Some (lit ''starter''))]\<rparr>"
  by (simp add: eval_defs)

text \<open>
  Claim C3. With unique ids, a toggle of the firm at a position of pending either is
  rejected at capacity (the firm is unselected and the limit is reached), and then only
  a toast is added, or replaces pending by pending with the flag of that one firm
  flipped; a selected firm is never gated. No toggle, whatever its arguments, changes
  committed.
\<close>

theorem toggle_frame:
  assumes "distinct (map firm_id (pendingPropFirms (propFirms s)))"
    and "i < length (pendingPropFirms (propFirms s))"
  shows "handleToggle togglePropFirm (firm_id (pendingPropFirms (propFirms s) ! i))
           (isSelected (pendingPropFirms (propFirms s) ! i)) s =
         (if \<not> isSelected (pendingPropFirms (propFirms s) ! i) \<and>
             hasReachedLimit (user_plan s) (selectedCount s)
          then Normal (s\<lparr>toasts := toasts s @ [toast_plan_limit (user_plan s)]\<rparr>)
          else Normal (s\<lparr>propFirms := (propFirms s)\<lparr>pendingPropFirms :=
                  (pendingPropFirms (propFirms s))[i := flip (pendingPropFirms (propFirms s) ! i)]\<rparr>\<rparr>)) \<and>
         committedPropFirms (propFirms (state_of (handleToggle togglePropFirm j b s)))
           = committedPropFirms (propFirms s)"
  using handleToggle_spec [OF assms]
  by (simp add: handleToggle_def call_def togglePropFirm_def toast_def)

theorem toggle_frame_witness:
  "distinct (map firm_id (pendingPropFirms (propFirms starter_session))) \<and>
   0 < length (pendingPropFirms (propFirms starter_session)) \<and>
   handleToggle togglePropFirm (lit ''A'') False starter_session =
     Normal (starter_session\<lparr>propFirms := \<lparr>committedPropFirms = two_firms,
        pendingPropFirms = [catalogue_firm ''A'' True, catalogue_firm ''B'' False]\<rparr>\<rparr>) \<and>
   committedPropFirms (propFirms (state_of (handleToggle togglePropFirm (lit ''A'') False starter_session)))
     = two_firms"
proof -
  have l: "0 < length (pendingPropFirms (propFirms starter_session))"
    by (simp add: eval_defs)
  from toggle_frame [OF starter_session_facts(1) l, of "lit ''A''" False] starter_session_facts(1) l
  show ?thesis by (simp add: eval_defs)
qed

text \<open>
  Claim C4. The claim: the capacity check of a toggle is evaluated against the number
  of selected firms of the current pending list, so that the toggles of a session
  compound. The check reads the \<open>selectedCount\<close> cell instead, which is that number only
  once the effect has run. In the starter session after the click on the first
  checkbox, pending has one selected firm and the cell still holds 0: the test on the
  cell is false where the test on pending is true, and the toggle of the second firm
  calls \<open>togglePropFirm\<close>, whatever function that is, instead of being rejected.
\<close>

theorem capacity_check_reads_stale_cell:
  "countSelected (pendingPropFirms (propFirms (run togglePropFirm [Click 0] starter_session))) = 1 \<and>
   selectedCount (run togglePropFirm [Click 0] starter_session) = 0 \<and>
   hasReachedLimit (user_plan (run togglePropFirm [Click 0] starter_session))
     (countSelected (pendingPropFirms (propFirms (run togglePropFirm [Click 0] starter_session)))) = True \<and>
   hasReachedLimit (user_plan (run togglePropFirm [Click 0] starter_session))
     (selectedCount (run togglePropFirm [Click 0] starter_session)) = False \<and>
   handleToggle tog (lit ''B'') False (run togglePropFirm [Click 0] starter_session) =
     call (tog (lit ''B'')) (run togglePropFirm [Click 0] starter_session)"
  by (simp add: eval_defs)

section \<open>Saving\<close>



section \<open>Pending changes\<close>

text \<open>
  Claim C9. In every state that the operations of the lifecycle (toggle, add a custom
  firm, save with either outcome, discard) reach from a loaded catalogue,
  \<open>hasPendingChanges\<close>, a function of pending and committed, is true if and only if
  pending and committed do not have the same ids in the same places with the same
  \<open>isSelected\<close> flags.
\<close>

theorem hasPendingChanges_iff:
  "hasPendingChanges (lifecycle ops catalogue) = (\<not> sameSelections (lifecycle ops catalogue))"
  by (rule inv_dirty) (simp add: lifecycle_def inv_fold inv_loaded)

end
